theory Spec2Isabelle
  imports Complex_Main
begin

section \<open>Python values\<close>

text \<open>
  The validators of \<^verbatim>\<open>utils/validation.py\<close> and the predictor of
  \<^verbatim>\<open>utils/model_predictor.py\<close> take dynamically typed arguments: form strings, the
  numbers their docstrings admit, and the absent value. A float is one of the IEEE specials
  or a finite value, represented by the real number it denotes; the two zeros are not told
  apart (they are equal and both falsy in Python).
\<close>

datatype pyfloat = Fin real | PosInf | NegInf | NaN

datatype pyval = PyNone | PyBool bool | PyInt int | PyFloat pyfloat | PyStr string

datatype exn_class =
  TypeError | ValueError | OverflowError | AttributeError | FileNotFoundError | RuntimeError
  | OtherError

text \<open>Truth value testing, as \<^verbatim>\<open>not x\<close> does it.\<close>

fun truthy :: "pyval \<Rightarrow> bool" where
  "truthy PyNone = False"
| "truthy (PyBool b) = b"
| "truthy (PyInt n) = (n \<noteq> 0)"
| "truthy (PyFloat (Fin r)) = (r \<noteq> 0)"
| "truthy (PyFloat PosInf) = True"
| "truthy (PyFloat NegInf) = True"
| "truthy (PyFloat NaN) = True"
| "truthy (PyStr s) = (s \<noteq> [])"

text \<open>Float comparison: every comparison with NaN is false.\<close>

fun float_lt :: "pyfloat \<Rightarrow> pyfloat \<Rightarrow> bool" where
  "float_lt NaN y = False"
| "float_lt x NaN = False"
| "float_lt (Fin a) (Fin b) = (a < b)"
| "float_lt (Fin a) PosInf = True"
| "float_lt (Fin a) NegInf = False"
| "float_lt PosInf y = False"
| "float_lt NegInf (Fin b) = True"
| "float_lt NegInf PosInf = True"
| "float_lt NegInf NegInf = False"

fun float_ge :: "pyfloat \<Rightarrow> pyfloat \<Rightarrow> bool" where
  "float_ge NaN y = False"
| "float_ge x NaN = False"
| "float_ge (Fin a) (Fin b) = (a \<ge> b)"
| "float_ge (Fin a) PosInf = False"
| "float_ge (Fin a) NegInf = True"
| "float_ge PosInf y = True"
| "float_ge NegInf (Fin b) = False"
| "float_ge NegInf PosInf = False"
| "float_ge NegInf NegInf = True"

definition float_gt :: "pyfloat \<Rightarrow> pyfloat \<Rightarrow> bool" where
  "float_gt x y = float_lt y x"

subsection \<open>The conversion \<^verbatim>\<open>int(x)\<close>\<close>

text \<open>
  A string is a sequence of code points below 256. \<^verbatim>\<open>int\<close> of a string strips
  whitespace, reads an optional sign and then decimal digits, where a single underscore may
  stand between two digits. The whitespace it strips is the tab, the line feed, the vertical
  tab, the form feed, the carriage return and the space, and of the code points above 127
  the next line (133) and the no-break space (160); the separators 28 to 31 are whitespace
  for \<^verbatim>\<open>str.strip\<close> and not for \<^verbatim>\<open>int\<close>. A string of more than 4300 digits is
  refused, which is the interpreter's default limit.
\<close>

definition py_space :: "char \<Rightarrow> bool" where
  "py_space c =
     (let n = (of_char c :: nat) in (9 \<le> n \<and> n \<le> 13) \<or> n = 32 \<or> n = 133 \<or> n = 160)"

definition strip :: "string \<Rightarrow> string" where
  "strip s = rev (dropWhile py_space (rev (dropWhile py_space s)))"

definition is_digit :: "char \<Rightarrow> bool" where
  "is_digit c = (let n = (of_char c :: nat) in 48 \<le> n \<and> n \<le> 57)"

definition digit :: "char \<Rightarrow> int" where
  "digit c = of_char c - 48"

fun digits_val :: "int \<Rightarrow> string \<Rightarrow> int option" where
  "digits_val acc [] = Some acc"
| "digits_val acc [c] = (if is_digit c then Some (10 * acc + digit c) else None)"
| "digits_val acc (c # d # ds) =
     (if is_digit c then digits_val (10 * acc + digit c) (d # ds)
      else if c = CHR ''_'' \<and> is_digit d then digits_val (10 * acc + digit d) ds
      else None)"

definition nat_literal :: "string \<Rightarrow> int option" where
  "nat_literal s =
     (case s of [] \<Rightarrow> None
      | c # cs \<Rightarrow> if is_digit c then digits_val (digit c) cs else None)"

definition int_literal :: "string \<Rightarrow> int option" where
  "int_literal s =
     (case strip s of [] \<Rightarrow> None
      | c # cs \<Rightarrow>
          if c = CHR ''-'' then map_option uminus (nat_literal cs)
          else if c = CHR ''+'' then nat_literal cs
          else nat_literal (c # cs))"

definition max_str_digits :: nat where
  "max_str_digits = 4300"

definition int_of_str :: "string \<Rightarrow> int option" where
  "int_of_str s =
     (if length (filter is_digit s) > max_str_digits then None else int_literal s)"

text \<open>
  \<^verbatim>\<open>int\<close> of any value: \<^verbatim>\<open>None\<close> is a TypeError, a float is truncated towards zero
  (NaN is a ValueError, an infinity an OverflowError), a string is read as above or is a
  ValueError. Only the class of the exception is recorded.
\<close>

fun py_int :: "pyval \<Rightarrow> exn_class + int" where
  "py_int PyNone = Inl TypeError"
| "py_int (PyBool b) = Inr (if b then 1 else 0)"
| "py_int (PyInt n) = Inr n"
| "py_int (PyFloat (Fin r)) = Inr (if 0 \<le> r then \<lfloor>r\<rfloor> else \<lceil>r\<rceil>)"
| "py_int (PyFloat NaN) = Inl ValueError"
| "py_int (PyFloat PosInf) = Inl OverflowError"
| "py_int (PyFloat NegInf) = Inl OverflowError"
| "py_int (PyStr s) = (case int_of_str s of None \<Rightarrow> Inl ValueError | Some n \<Rightarrow> Inr n)"

subsection \<open>The conversion \<^verbatim>\<open>float(x)\<close>\<close>

text \<open>
  \<^verbatim>\<open>float\<close> of an int is the nearest double: the int is rounded to 53 significant bits,
  a tie going to the even neighbour, and the conversion raises OverflowError when the
  rounded value is \<open>2^1024\<close> or more.
\<close>

function bit_length :: "int \<Rightarrow> nat" where
  "bit_length n = (if n \<le> 0 then 0 else Suc (bit_length (n div 2)))"
  by pat_completeness auto
termination
  by (relation "measure nat") auto

declare bit_length.simps [simp del]

definition round_to_53 :: "int \<Rightarrow> int" where
  "round_to_53 n =
     (let e = bit_length n - 53; q = n div 2 ^ e; r = n mod 2 ^ e
      in if 2 * r > 2 ^ e \<or> (2 * r = 2 ^ e \<and> odd q) then (q + 1) * 2 ^ e else q * 2 ^ e)"

definition int_to_float :: "int \<Rightarrow> pyfloat option" where
  "int_to_float n =
     (let m = round_to_53 \<bar>n\<bar>
      in if 2 ^ 1024 \<le> m then None else Some (Fin (of_int (if n < 0 then - m else m))))"

text \<open>
  \<^verbatim>\<open>float\<close> of a string is the interpreter's decimal-to-double conversion. It is not code
  of this repository and its rounding is not modelled: the functions below take it as the
  parameter \<open>atof\<close>, which is \<open>None\<close> where \<^verbatim>\<open>float\<close> raises ValueError.
\<close>

fun py_float :: "(string \<Rightarrow> pyfloat option) \<Rightarrow> pyval \<Rightarrow> exn_class + pyfloat" where
  "py_float atof PyNone = Inl TypeError"
| "py_float atof (PyBool b) = Inr (Fin (if b then 1 else 0))"
| "py_float atof (PyInt n) =
     (case int_to_float n of None \<Rightarrow> Inl OverflowError | Some x \<Rightarrow> Inr x)"
| "py_float atof (PyFloat x) = Inr x"
| "py_float atof (PyStr s) = (case atof s of None \<Rightarrow> Inl ValueError | Some x \<Rightarrow> Inr x)"

text \<open>
  An instance of the parameter for concrete inputs: it reads the strings that are integer
  literals, to the nearest double and to an infinity beyond the range, as \<^verbatim>\<open>float\<close> does,
  and has no value on a string without digits such as \<^verbatim>\<open>"abc"\<close>.
\<close>

definition atof_int :: "string \<Rightarrow> pyfloat option" where
  "atof_int s =
     (case int_literal s of
        None \<Rightarrow> None
      | Some n \<Rightarrow>
          Some (case int_to_float n of
                  None \<Rightarrow> if n < 0 then NegInf else PosInf
                | Some x \<Rightarrow> x))"

section \<open>Field validators (utils/validation.py)\<close>

text \<open>
  Each validator returns its tuple, or propagates the exception its \<^verbatim>\<open>except\<close> clause
  does not name (\<open>Inl\<close>).
\<close>

definition validate_patient_age :: "pyval \<Rightarrow> exn_class + (bool \<times> string \<times> int option)" where
  "validate_patient_age age =
     (if \<not> truthy age then Inr (False, ''Age is required'', None)
      else case py_int age of
        Inl e \<Rightarrow>
          if e = ValueError \<or> e = TypeError then Inr (False, ''Age must be a valid number'', None)
          else Inl e
      | Inr age_int \<Rightarrow>
          if age_int < 0 then Inr (False, ''Age cannot be negative'', None)
          else if age_int > 150
            then Inr (False, ''Age must be a reasonable value (less than 150)'', None)
          else Inr (True, [], Some age_int))"

text \<open>Substring test, as \<^verbatim>\<open>sub in s\<close> on strings.\<close>

fun starts_with :: "string \<Rightarrow> string \<Rightarrow> bool" where
  "starts_with [] s = True"
| "starts_with (c # cs) [] = False"
| "starts_with (c # cs) (d # ds) = (c = d \<and> starts_with cs ds)"

fun contains :: "string \<Rightarrow> string \<Rightarrow> bool" where
  "contains sub [] = (sub = [])"
| "contains sub (d # ds) = (starts_with sub (d # ds) \<or> contains sub ds)"

text \<open>\<^verbatim>\<open>sep.join(xs)\<close> and membership of a value in a list of strings.\<close>

fun join :: "string \<Rightarrow> string list \<Rightarrow> string" where
  "join sep [] = []"
| "join sep [x] = x"
| "join sep (x # y # ys) = x @ sep @ join sep (y # ys)"

definition py_in :: "pyval \<Rightarrow> string list \<Rightarrow> bool" where
  "py_in v xs = list_ex (\<lambda>s. v = PyStr s) xs"

definition valid_genders :: "string list" where
  "valid_genders = [''Male'', ''Female'', ''Other'']"

definition validate_gender :: "pyval \<Rightarrow> bool \<times> string" where
  "validate_gender gender =
     (if \<not> py_in gender valid_genders
      then (False, ''Gender must be one of: '' @ join '', '' valid_genders)
      else (True, []))"

definition hypertension_message :: string where
  "hypertension_message = ''Hypertension must be 0 (No) or 1 (Yes)''"

definition validate_hypertension :: "pyval \<Rightarrow> exn_class + (bool \<times> string \<times> int option)" where
  "validate_hypertension hypertension =
     (if hypertension = PyNone \<or> hypertension = PyStr []
      then Inr (False, ''Hypertension value is required'', None)
      else case py_int hypertension of
        Inr value_int \<Rightarrow>
          if value_int \<noteq> 0 \<and> value_int \<noteq> 1 then Inr (False, hypertension_message, None)
          else Inr (True, [], Some value_int)
      | Inl e \<Rightarrow>
          if e = ValueError \<or> e = TypeError then Inr (False, hypertension_message, None)
          else Inl e)"

definition ever_married_values :: "string list" where
  "ever_married_values = [''No'', ''Yes'']"

definition validate_ever_married :: "pyval \<Rightarrow> bool \<times> string" where
  "validate_ever_married ever_married =
     (if \<not> py_in ever_married ever_married_values
      then (False, ''Ever married must be one of: '' @ join '', '' ever_married_values)
      else (True, []))"

definition work_types :: "string list" where
  "work_types = [''Children'', ''Govt_job'', ''Never_worked'', ''Private'', ''Self-employed'']"

definition validate_work_type :: "pyval \<Rightarrow> bool \<times> string" where
  "validate_work_type work_type =
     (if \<not> py_in work_type work_types
      then (False, ''Work type must be one of: '' @ join '', '' work_types)
      else (True, []))"

definition residence_types :: "string list" where
  "residence_types = [''Rural'', ''Urban'']"

definition validate_residence_type :: "pyval \<Rightarrow> bool \<times> string" where
  "validate_residence_type residence_type =
     (if \<not> py_in residence_type residence_types
      then (False, ''Residence type must be one of: '' @ join '', '' residence_types)
      else (True, []))"

definition validate_avg_glucose_level ::
  "(string \<Rightarrow> pyfloat option) \<Rightarrow> pyval \<Rightarrow> exn_class + (bool \<times> string \<times> pyfloat option)" where
  "validate_avg_glucose_level atof glucose_level =
     (if \<not> truthy glucose_level then Inr (False, ''Average glucose level is required'', None)
      else case py_float atof glucose_level of
        Inr value_float \<Rightarrow>
          if float_lt value_float (Fin 0)
            then Inr (False, ''Glucose level cannot be negative'', None)
          else if float_gt value_float (Fin 500)
            then Inr (False, ''Glucose level must be a reasonable value (less than 500)'', None)
          else Inr (True, [], Some value_float)
      | Inl e \<Rightarrow>
          if e = ValueError \<or> e = TypeError
            then Inr (False, ''Glucose level must be a valid number'', None)
          else Inl e)"

definition validate_bmi ::
  "(string \<Rightarrow> pyfloat option) \<Rightarrow> pyval \<Rightarrow> exn_class + (bool \<times> string \<times> pyfloat option)" where
  "validate_bmi atof bmi =
     (if \<not> truthy bmi then Inr (False, ''BMI is required'', None)
      else case py_float atof bmi of
        Inr value_float \<Rightarrow>
          if float_lt value_float (Fin 0) then Inr (False, ''BMI cannot be negative'', None)
          else if float_gt value_float (Fin 100)
            then Inr (False, ''BMI must be a reasonable value (less than 100)'', None)
          else Inr (True, [], Some value_float)
      | Inl e \<Rightarrow>
          if e = ValueError \<or> e = TypeError then Inr (False, ''BMI must be a valid number'', None)
          else Inl e)"

definition smoking_statuses :: "string list" where
  "smoking_statuses = [''Formerly smoked'', ''Never smoked'', ''Smokes'', ''Unknown'']"

definition validate_smoking_status :: "pyval \<Rightarrow> bool \<times> string" where
  "validate_smoking_status smoking_status =
     (if \<not> py_in smoking_status smoking_statuses
      then (False, ''Smoking status must be one of: '' @ join '', '' smoking_statuses)
      else (True, []))"

section \<open>Risk predictor (utils/model_predictor.py)\<close>

text \<open>
  A raised exception: its class, its message and the exception it was raised
  \<^verbatim>\<open>from\<close>. An exception raised by a builtin conversion is recorded with its class only.
\<close>

datatype exn = Exn (cls: exn_class) (message: string) (cause: "exn option")

text \<open>
  The one-row frame handed to the pipeline is the payload dictionary, in insertion order.
  The pipeline is the unpickled object: applied to a row it gives the probability of the
  positive class, \<^verbatim>\<open>float(model.predict_proba(features)[0][1])\<close>, or raises. The storage
  maps a path to nothing when no file exists there, and otherwise to what
  \<^verbatim>\<open>joblib.load\<close> does with the file: raise, or return the pipeline.
\<close>

type_synonym row = "(string \<times> pyval) list"

type_synonym pipeline = "row \<Rightarrow> exn + pyfloat"

type_synonym storage = "string \<Rightarrow> (exn + pipeline) option"

text \<open>
  The predictor object. Its path is a \<^verbatim>\<open>pathlib.Path\<close>, represented by the string it
  prints as in the message of \<^verbatim>\<open>load_model\<close>; the constructor below takes that path, as
  the default \<^verbatim>\<open>MODEL_PATH\<close> is one, and the normalisation \<^verbatim>\<open>Path\<close> applies to a plain
  string is not part of the model. \<open>reads\<close> is not a field of the class: it counts the
  calls of \<^verbatim>\<open>joblib.load\<close> made through this object.
\<close>

record predictor =
  model_path :: string
  threshold :: pyfloat
  model :: "pipeline option"
  reads :: nat

definition MODEL_PATH :: string where
  "MODEL_PATH = ''modeltraining/stroke_model.pkl''"

definition PREDICTION_THRESHOLD :: pyfloat where
  "PREDICTION_THRESHOLD = Fin 0.75"

definition StrokePredictor :: "string \<Rightarrow> pyfloat \<Rightarrow> predictor" where
  "StrokePredictor path thr = \<lparr>model_path = path, threshold = thr, model = None, reads = 0\<rparr>"

text \<open>The two exceptions \<^verbatim>\<open>load_model\<close> raises.\<close>

definition not_found_error :: "string \<Rightarrow> exn" where
  "not_found_error path =
     Exn FileNotFoundError
       (''Model file not found at '' @ path @ ''. ''
        @ ''Please export stroke_model.pkl from the training notebook into modeltraining/.'')
       None"

definition load_error :: "exn \<Rightarrow> exn" where
  "load_error exc = Exn FileNotFoundError (''Error loading model: '' @ message exc) (Some exc)"

definition load_model :: "storage \<Rightarrow> predictor \<Rightarrow> exn option \<times> predictor" where
  "load_model fs self =
     (if model self \<noteq> None then (None, self)
      else case fs (model_path self) of
        None \<Rightarrow> (Some (not_found_error (model_path self)), self)
      | Some (Inl exc) \<Rightarrow> (Some (load_error exc), self\<lparr>reads := reads self + 1\<rparr>)
      | Some (Inr m) \<Rightarrow> (None, self\<lparr>model := Some m, reads := reads self + 1\<rparr>))"

definition as_float :: "(string \<Rightarrow> pyfloat option) \<Rightarrow> pyval \<Rightarrow> pyfloat \<Rightarrow> exn_class + pyfloat" where
  "as_float atof v dflt =
     (case py_float atof v of
        Inr x \<Rightarrow> Inr x
      | Inl e \<Rightarrow> if e = TypeError \<or> e = ValueError then Inr dflt else Inl e)"

definition as_int :: "pyval \<Rightarrow> int \<Rightarrow> exn_class + int" where
  "as_int v dflt =
     (case py_int v of
        Inr n \<Rightarrow> Inr n
      | Inl e \<Rightarrow> if e = TypeError \<or> e = ValueError then Inr dflt else Inl e)"

text \<open>\<^verbatim>\<open>d.get(k)\<close>: the value, or \<^verbatim>\<open>None\<close> for an absent key.\<close>

definition dict_get :: "(string \<rightharpoonup> pyval) \<Rightarrow> string \<Rightarrow> pyval" where
  "dict_get d k = (case d k of None \<Rightarrow> PyNone | Some v \<Rightarrow> v)"

text \<open>
  The payload's values are evaluated in the order the dictionary display lists them, so
  the first conversion that raises decides the exception.
\<close>

definition prepare_features ::
  "(string \<Rightarrow> pyfloat option) \<Rightarrow> (string \<rightharpoonup> pyval) \<Rightarrow> exn_class + row" where
  "prepare_features atof patient_data =
     (case as_float atof (dict_get patient_data ''age'') (Fin 0) of
        Inl e \<Rightarrow> Inl e
      | Inr age \<Rightarrow>
     (case as_int (dict_get patient_data ''hypertension'') 0 of
        Inl e \<Rightarrow> Inl e
      | Inr hypertension \<Rightarrow>
     (case as_float atof (dict_get patient_data ''avg_glucose_level'') (Fin 0) of
        Inl e \<Rightarrow> Inl e
      | Inr glucose \<Rightarrow>
     (case as_float atof (dict_get patient_data ''bmi'') (Fin 0) of
        Inl e \<Rightarrow> Inl e
      | Inr bmi \<Rightarrow>
          Inr [(''gender'', dict_get patient_data ''gender''),
               (''age'', PyFloat age),
               (''hypertension'', PyInt hypertension),
               (''ever_married'', dict_get patient_data ''ever_married''),
               (''work_type'', dict_get patient_data ''work_type''),
               (''Residence_type'', dict_get patient_data ''residence_type''),
               (''avg_glucose_level'', PyFloat glucose),
               (''bmi'', PyFloat bmi),
               (''smoking_status'', dict_get patient_data ''smoking_status'')]))))"

text \<open>
  The part of \<^verbatim>\<open>predict\<close> after \<^verbatim>\<open>self.load_model()\<close>: feature preparation, the call of
  the pipeline and the threshold. An unset model has no \<^verbatim>\<open>predict_proba\<close>, which is the
  AttributeError the method turns into a RuntimeError.
\<close>

definition no_predict_proba :: "exn \<Rightarrow> exn" where
  "no_predict_proba exc = Exn RuntimeError ''Loaded model does not expose predict_proba'' (Some exc)"

definition infer ::
  "(string \<Rightarrow> pyfloat option) \<Rightarrow> predictor \<Rightarrow> (string \<rightharpoonup> pyval) \<Rightarrow> exn + (int \<times> pyfloat)" where
  "infer atof self patient_data =
     (case prepare_features atof patient_data of
        Inl c \<Rightarrow> Inl (Exn c [] None)
      | Inr features \<Rightarrow>
          (case model self of
             None \<Rightarrow> Inl (no_predict_proba (Exn AttributeError [] None))
           | Some m \<Rightarrow>
               (case m features of
                  Inl exc \<Rightarrow> if cls exc = AttributeError then Inl (no_predict_proba exc) else Inl exc
                | Inr probability \<Rightarrow>
                    Inr (if float_ge probability (threshold self) then 1 else 0, probability))))"

definition predict ::
  "storage \<Rightarrow> (string \<Rightarrow> pyfloat option) \<Rightarrow> predictor \<Rightarrow> (string \<rightharpoonup> pyval)
     \<Rightarrow> (exn + (int \<times> pyfloat)) \<times> predictor" where
  "predict fs atof self patient_data =
     (case load_model fs self of
        (Some e, self') \<Rightarrow> (Inl e, self')
      | (None, self') \<Rightarrow> (infer atof self' patient_data, self'))"

text \<open>
  The module-level instance: \<^verbatim>\<open>get_predictor\<close> creates it on first use, and the routes
  call \<^verbatim>\<open>predict\<close> on it, which updates the shared object.
\<close>

definition get_predictor :: "predictor option \<Rightarrow> predictor \<times> predictor option" where
  "get_predictor g =
     (case g of
        None \<Rightarrow> (let p = StrokePredictor MODEL_PATH PREDICTION_THRESHOLD in (p, Some p))
      | Some p \<Rightarrow> (p, Some p))"


text \<open>Stand-ins for tests: a pipeline that returns a fixed probability, a one-file storage.\<close>

definition stub_pipeline :: "pyfloat \<Rightarrow> pipeline" where
  "stub_pipeline p features = Inr p"

definition one_file :: "string \<Rightarrow> (exn + pipeline) \<Rightarrow> storage" where
  "one_file path content q = (if q = path then Some content else None)"

text \<open>A stored profile without the \<^verbatim>\<open>bmi\<close> field, for concrete evaluations.\<close>

definition profile_without_bmi :: "string \<rightharpoonup> pyval" where
  "profile_without_bmi =
     map_of [(''name'', PyStr ''Mary-Jane''), (''age'', PyInt 67), (''gender'', PyStr ''Female''),
             (''hypertension'', PyInt 1), (''ever_married'', PyStr ''Yes''),
             (''work_type'', PyStr ''Private''), (''residence_type'', PyStr ''Urban''),
             (''avg_glucose_level'', PyFloat (Fin 228.5)), (''smoking_status'', PyStr ''Smokes'')]"

definition unreadable :: exn where
  "unreadable = Exn OtherError ''invalid load key'' None"

section \<open>Concurrent callers\<close>

text \<open>
  Several request threads call \<^verbatim>\<open>predict\<close> on the one shared predictor. The code takes no
  lock, so the threads interleave between the accesses of \<^verbatim>\<open>load_model\<close> to the shared
  object: the test of \<^verbatim>\<open>self.model\<close>, the read of the artifact (\<^verbatim>\<open>exists\<close> and
  \<^verbatim>\<open>joblib.load\<close>, which works on a local result), and the assignment to
  \<^verbatim>\<open>self.model\<close>. The rest of \<^verbatim>\<open>predict\<close> reads the shared object once. A caller is at
  one of these points, or has finished with its result.
\<close>

datatype pc =
  AtCheck | AtLoad | AtStore pipeline | AtInfer | Finished "exn + (int \<times> pyfloat)"

fun thread_step ::
  "storage \<Rightarrow> (string \<Rightarrow> pyfloat option) \<Rightarrow> (string \<rightharpoonup> pyval) \<Rightarrow> predictor \<Rightarrow> pc
     \<Rightarrow> predictor \<times> pc" where
  "thread_step fs atof d self AtCheck = (self, if model self \<noteq> None then AtInfer else AtLoad)"
| "thread_step fs atof d self AtLoad =
     (case fs (model_path self) of
        None \<Rightarrow> (self, Finished (Inl (not_found_error (model_path self))))
      | Some (Inl exc) \<Rightarrow> (self\<lparr>reads := reads self + 1\<rparr>, Finished (Inl (load_error exc)))
      | Some (Inr m) \<Rightarrow> (self\<lparr>reads := reads self + 1\<rparr>, AtStore m))"
| "thread_step fs atof d self (AtStore m) = (self\<lparr>model := Some m\<rparr>, AtInfer)"
| "thread_step fs atof d self AtInfer = (self, Finished (infer atof self d))"
| "thread_step fs atof d self (Finished r) = (self, Finished r)"

text \<open>
  The system: the shared predictor and, for each caller, its patient record and its point
  in the code. A schedule names the caller that takes the next step.
\<close>

type_synonym system = "predictor \<times> ((string \<rightharpoonup> pyval) \<times> pc) list"

definition step :: "storage \<Rightarrow> (string \<Rightarrow> pyfloat option) \<Rightarrow> nat \<Rightarrow> system \<Rightarrow> system" where
  "step fs atof i st =
     (case st of (self, ts) \<Rightarrow>
        if i < length ts then
          (case ts ! i of (d, p) \<Rightarrow>
             (case thread_step fs atof d self p of (self', p') \<Rightarrow> (self', ts[i := (d, p')])))
        else (self, ts))"

definition run :: "storage \<Rightarrow> (string \<Rightarrow> pyfloat option) \<Rightarrow> nat list \<Rightarrow> system \<Rightarrow> system" where
  "run fs atof sched st = fold (step fs atof) sched st"

definition start :: "predictor \<Rightarrow> (string \<rightharpoonup> pyval) list \<Rightarrow> system" where
  "start self ds = (self, map (\<lambda>d. (d, AtCheck)) ds)"







section \<open>Properties of the validators\<close>

lemma age_25: "validate_patient_age (PyStr ''25'') = Inr (True, [], Some 25)"
  by code_simp

lemma age_empty: "validate_patient_age (PyStr []) = Inr (False, ''Age is required'', None)"
  by (simp add: validate_patient_age_def)

lemma age_abc: "validate_patient_age (PyStr ''abc'') = Inr (False, ''Age must be a valid number'', None)"
  by code_simp

lemma age_minus_5: "validate_patient_age (PyStr ''-5'') = Inr (False, ''Age cannot be negative'', None)"
  by code_simp

lemma age_200:
  "validate_patient_age (PyStr ''200'') =
     Inr (False, ''Age must be a reasonable value (less than 150)'', None)"
  by code_simp

lemma age_150: "validate_patient_age (PyStr ''150'') = Inr (True, [], Some 150)"
  by code_simp

lemma age_151:
  "validate_patient_age (PyStr ''151'') =
     Inr (False, ''Age must be a reasonable value (less than 150)'', None)"
  by code_simp

lemma age_messages:
  "contains ''required'' ''Age is required''"
  "contains ''number'' ''Age must be a valid number''"
  "contains ''negative'' ''Age cannot be negative''"
  "contains ''150'' ''Age must be a reasonable value (less than 150)''"
  by code_simp+

text \<open>
  C4. The age validator on the inputs the specification quotes: \<^verbatim>\<open>"25"\<close> and
  \<^verbatim>\<open>"150"\<close> are accepted with the parsed integer and an empty message; the empty string,
  \<^verbatim>\<open>"abc"\<close>, \<^verbatim>\<open>"-5"\<close>, \<^verbatim>\<open>"200"\<close> and \<^verbatim>\<open>"151"\<close> are rejected with no value, and
  the messages contain "required", "number", "negative" and "150" respectively.
\<close>

theorem validate_patient_age_quoted_inputs:
  "validate_patient_age (PyStr ''25'') = Inr (True, [], Some 25)
   \<and> validate_patient_age (PyStr []) = Inr (False, ''Age is required'', None)
   \<and> contains ''required'' ''Age is required''
   \<and> validate_patient_age (PyStr ''abc'') = Inr (False, ''Age must be a valid number'', None)
   \<and> contains ''number'' ''Age must be a valid number''
   \<and> validate_patient_age (PyStr ''-5'') = Inr (False, ''Age cannot be negative'', None)
   \<and> contains ''negative'' ''Age cannot be negative''
   \<and> validate_patient_age (PyStr ''200'') =
        Inr (False, ''Age must be a reasonable value (less than 150)'', None)
   \<and> contains ''150'' ''Age must be a reasonable value (less than 150)''
   \<and> validate_patient_age (PyStr ''150'') = Inr (True, [], Some 150)
   \<and> validate_patient_age (PyStr ''151'') =
        Inr (False, ''Age must be a reasonable value (less than 150)'', None)"
  using age_25 age_empty age_abc age_minus_5 age_200 age_150 age_151 age_messages
  by (intro conjI)

subsection \<open>Enumerated fields\<close>

lemma join_domains:
  "join '', '' [''Male'', ''Female'', ''Other''] = ''Male, Female, Other''"
  "join '', '' [''No'', ''Yes''] = ''No, Yes''"
  "join '', '' [''Children'', ''Govt_job'', ''Never_worked'', ''Private'', ''Self-employed'']
     = ''Children, Govt_job, Never_worked, Private, Self-employed''"
  "join '', '' [''Rural'', ''Urban''] = ''Rural, Urban''"
  "join '', '' [''Formerly smoked'', ''Never smoked'', ''Smokes'', ''Unknown'']
     = ''Formerly smoked, Never smoked, Smokes, Unknown''"
  by simp_all

lemma gender_enum:
  "validate_gender (PyStr s) =
     (if s \<in> {''Male'', ''Female'', ''Other''} then (True, [])
      else (False, ''Gender must be one of: Male, Female, Other''))"
  by (simp add: validate_gender_def py_in_def valid_genders_def)

lemma ever_married_enum:
  "validate_ever_married (PyStr s) =
     (if s \<in> {''No'', ''Yes''} then (True, [])
      else (False, ''Ever married must be one of: No, Yes''))"
  by (simp add: validate_ever_married_def py_in_def ever_married_values_def)

lemma work_type_enum:
  "validate_work_type (PyStr s) =
     (if s \<in> {''Children'', ''Govt_job'', ''Never_worked'', ''Private'', ''Self-employed''}
      then (True, [])
      else (False,
        ''Work type must be one of: Children, Govt_job, Never_worked, Private, Self-employed''))"
  by (simp add: validate_work_type_def py_in_def work_types_def)

lemma residence_type_enum:
  "validate_residence_type (PyStr s) =
     (if s \<in> {''Rural'', ''Urban''} then (True, [])
      else (False, ''Residence type must be one of: Rural, Urban''))"
  by (simp add: validate_residence_type_def py_in_def residence_types_def)

lemma smoking_status_enum:
  "validate_smoking_status (PyStr s) =
     (if s \<in> {''Formerly smoked'', ''Never smoked'', ''Smokes'', ''Unknown''} then (True, [])
      else (False,
        ''Smoking status must be one of: Formerly smoked, Never smoked, Smokes, Unknown''))"
  by (simp add: validate_smoking_status_def py_in_def smoking_statuses_def)

text \<open>
  C6. For each of the five enumerated fields and every input string, the validator returns
  \<open>(True, "")\<close> exactly when the string is a member of the field's domain, and otherwise
  \<open>False\<close> with a message that lists the whole domain, its values joined by a comma and a
  space: the messages are written out.
\<close>

theorem enum_validators_fail_closed:
  "validate_gender (PyStr s) =
     (if s \<in> {''Male'', ''Female'', ''Other''} then (True, [])
      else (False, ''Gender must be one of: Male, Female, Other''))
   \<and> validate_ever_married (PyStr s) =
     (if s \<in> {''No'', ''Yes''} then (True, [])
      else (False, ''Ever married must be one of: No, Yes''))
   \<and> validate_work_type (PyStr s) =
     (if s \<in> {''Children'', ''Govt_job'', ''Never_worked'', ''Private'', ''Self-employed''}
      then (True, [])
      else (False,
        ''Work type must be one of: Children, Govt_job, Never_worked, Private, Self-employed''))
   \<and> validate_residence_type (PyStr s) =
     (if s \<in> {''Rural'', ''Urban''} then (True, [])
      else (False, ''Residence type must be one of: Rural, Urban''))
   \<and> validate_smoking_status (PyStr s) =
     (if s \<in> {''Formerly smoked'', ''Never smoked'', ''Smokes'', ''Unknown''} then (True, [])
      else (False,
        ''Smoking status must be one of: Formerly smoked, Never smoked, Smokes, Unknown''))"
proof (intro conjI)
  show "validate_gender (PyStr s) =
     (if s \<in> {''Male'', ''Female'', ''Other''} then (True, [])
      else (False, ''Gender must be one of: Male, Female, Other''))"
    by (rule gender_enum)
  show "validate_ever_married (PyStr s) =
     (if s \<in> {''No'', ''Yes''} then (True, [])
      else (False, ''Ever married must be one of: No, Yes''))"
    by (rule ever_married_enum)
  show "validate_work_type (PyStr s) =
     (if s \<in> {''Children'', ''Govt_job'', ''Never_worked'', ''Private'', ''Self-employed''}
      then (True, [])
      else (False,
        ''Work type must be one of: Children, Govt_job, Never_worked, Private, Self-employed''))"
    by (rule work_type_enum)
  show "validate_residence_type (PyStr s) =
     (if s \<in> {''Rural'', ''Urban''} then (True, [])
      else (False, ''Residence type must be one of: Rural, Urban''))"
    by (rule residence_type_enum)
  show "validate_smoking_status (PyStr s) =
     (if s \<in> {''Formerly smoked'', ''Never smoked'', ''Smokes'', ''Unknown''} then (True, [])
      else (False,
        ''Smoking status must be one of: Formerly smoked, Never smoked, Smokes, Unknown''))"
    by (rule smoking_status_enum)
qed

subsection \<open>Hypertension\<close>

lemma py_int_error_classes:
  "py_int h = Inl e \<Longrightarrow> h \<noteq> PyFloat PosInf \<Longrightarrow> h \<noteq> PyFloat NegInf \<Longrightarrow>
     e = TypeError \<or> e = ValueError"
  by (cases h rule: py_int.cases) (auto split: option.splits)

lemma hypertension_messages:
  "contains ''required'' ''Hypertension value is required''"
  "contains ''0 (No) or 1 (Yes)'' ''Hypertension must be 0 (No) or 1 (Yes)''"
  by code_simp+

text \<open>
  Not every other non-empty value is rejected with the message: on a float infinity
  \<^verbatim>\<open>int\<close> raises OverflowError, which the \<^verbatim>\<open>except\<close> clause of the validator does
  not name, so the validator raises and returns no tuple.
\<close>

theorem hypertension_infinity_raises_counterexample:
  "PyFloat PosInf \<noteq> PyNone \<and> PyFloat PosInf \<noteq> PyStr []
   \<and> validate_hypertension (PyFloat PosInf) = Inl OverflowError
   \<and> validate_hypertension (PyFloat NegInf) = Inl OverflowError"
  by (simp add: validate_hypertension_def)

text \<open>
  C7 (amended). The hypertension validator rejects the absent value and the empty string
  with the "required" message; any other input that is not a float infinity is accepted
  exactly when \<^verbatim>\<open>int\<close> coerces it to 0 or 1, with that integer returned, and is otherwise
  rejected with the one message "Hypertension must be 0 (No) or 1 (Yes)", whether the
  coercion failed or gave another integer. This covers every string, every int, the bools,
  the finite floats and NaN.
\<close>

theorem validate_hypertension_zero_or_one:
  assumes "h \<noteq> PyFloat PosInf" and "h \<noteq> PyFloat NegInf"
  shows "validate_hypertension h =
     (if h = PyNone \<or> h = PyStr [] then Inr (False, ''Hypertension value is required'', None)
      else if py_int h = Inr 0 then Inr (True, [], Some 0)
      else if py_int h = Inr 1 then Inr (True, [], Some 1)
      else Inr (False, ''Hypertension must be 0 (No) or 1 (Yes)'', None))
    \<and> contains ''required'' ''Hypertension value is required''"
proof (cases "py_int h")
  case (Inl e)
  with assms have "e = TypeError \<or> e = ValueError"
    using py_int_error_classes by blast
  with Inl show ?thesis
    by (auto simp: validate_hypertension_def hypertension_message_def hypertension_messages)
next
  case (Inr n)
  then show ?thesis
    by (auto simp: validate_hypertension_def hypertension_message_def hypertension_messages)
qed

lemma hypertension_examples:
  "py_int (PyStr ''1'') = Inr 1"
  "py_int (PyStr ''2'') = Inr 2"
  "py_int (PyStr ''yes'') = Inl ValueError"
  "py_int (PyInt 0) = Inr 0"
  by code_simp+

theorem validate_hypertension_zero_or_one_witness:
  "validate_hypertension (PyStr ''1'') = Inr (True, [], Some 1)
   \<and> validate_hypertension (PyInt 0) = Inr (True, [], Some 0)
   \<and> validate_hypertension (PyStr ''2'') =
       Inr (False, ''Hypertension must be 0 (No) or 1 (Yes)'', None)
   \<and> validate_hypertension (PyStr ''yes'') =
       Inr (False, ''Hypertension must be 0 (No) or 1 (Yes)'', None)
   \<and> validate_hypertension PyNone = Inr (False, ''Hypertension value is required'', None)"
  using validate_hypertension_zero_or_one [of "PyStr ''1''"]
    validate_hypertension_zero_or_one [of "PyInt 0"]
    validate_hypertension_zero_or_one [of "PyStr ''2''"]
    validate_hypertension_zero_or_one [of "PyStr ''yes''"]
    validate_hypertension_zero_or_one [of PyNone]
  by (simp add: hypertension_examples del: py_int.simps)

subsection \<open>The numeric range validators\<close>

text \<open>
  The "required" test of the age, glucose and BMI validators is \<^verbatim>\<open>if not value\<close>, so it
  answers before any conversion is tried and whatever the conversion would have given.
\<close>

lemma falsy_required:
  assumes "\<not> truthy x"
  shows "validate_patient_age x = Inr (False, ''Age is required'', None)"
    and "validate_avg_glucose_level atof x =
           Inr (False, ''Average glucose level is required'', None)"
    and "validate_bmi atof x = Inr (False, ''BMI is required'', None)"
  using assms
  by (simp_all add: validate_patient_age_def validate_avg_glucose_level_def validate_bmi_def)

lemma age_zero_string: "validate_patient_age (PyStr ''0'') = Inr (True, [], Some 0)"
  by code_simp

lemma float_zero_string:
  assumes "atof ''0'' = Some (Fin 0)"
  shows "validate_avg_glucose_level atof (PyStr ''0'') = Inr (True, [], Some (Fin 0))"
    and "validate_bmi atof (PyStr ''0'') = Inr (True, [], Some (Fin 0))"
  using assms by (simp_all add: validate_avg_glucose_level_def validate_bmi_def float_gt_def)

lemma required_messages:
  "contains ''required'' ''Age is required''"
  "contains ''required'' ''Average glucose level is required''"
  "contains ''required'' ''BMI is required''"
  by code_simp+

text \<open>
  C10. The age, glucose and BMI validators reject every falsy input with their "required"
  message and no value, before any parsing: the absent value and the empty string, and
  also the numbers 0 and 0.0. Zero is accepted when it is supplied as the string
  \<^verbatim>\<open>"0"\<close> (for glucose and BMI: whenever \<^verbatim>\<open>float("0")\<close> is 0.0, as it is), and is not
  accepted as the number 0 or 0.0.
\<close>

theorem numeric_validators_reject_falsy:
  "(\<not> truthy x \<longrightarrow>
      validate_patient_age x = Inr (False, ''Age is required'', None)
      \<and> validate_avg_glucose_level atof x =
          Inr (False, ''Average glucose level is required'', None)
      \<and> validate_bmi atof x = Inr (False, ''BMI is required'', None))
   \<and> \<not> truthy PyNone \<and> \<not> truthy (PyStr []) \<and> \<not> truthy (PyInt 0) \<and> \<not> truthy (PyFloat (Fin 0))
   \<and> contains ''required'' ''Age is required''
   \<and> contains ''required'' ''Average glucose level is required''
   \<and> contains ''required'' ''BMI is required''
   \<and> validate_patient_age (PyStr ''0'') = Inr (True, [], Some 0)
   \<and> (atof ''0'' = Some (Fin 0) \<longrightarrow>
        validate_avg_glucose_level atof (PyStr ''0'') = Inr (True, [], Some (Fin 0))
        \<and> validate_bmi atof (PyStr ''0'') = Inr (True, [], Some (Fin 0)))"
  by (simp add: falsy_required float_zero_string age_zero_string required_messages)

lemma atof_int_zero: "atof_int ''0'' = Some (Fin 0)"
  by code_simp

theorem numeric_validators_reject_falsy_witness:
  "validate_patient_age (PyInt 0) = Inr (False, ''Age is required'', None)
   \<and> validate_avg_glucose_level atof_int (PyInt 0) =
       Inr (False, ''Average glucose level is required'', None)
   \<and> validate_bmi atof_int (PyInt 0) = Inr (False, ''BMI is required'', None)
   \<and> validate_patient_age (PyFloat (Fin 0)) = Inr (False, ''Age is required'', None)
   \<and> validate_bmi atof_int (PyFloat (Fin 0)) = Inr (False, ''BMI is required'', None)
   \<and> validate_avg_glucose_level atof_int (PyStr ''0'') = Inr (True, [], Some (Fin 0))
   \<and> validate_bmi atof_int (PyStr ''0'') = Inr (True, [], Some (Fin 0))"
  using numeric_validators_reject_falsy [of "PyInt 0" atof_int]
    numeric_validators_reject_falsy [of "PyFloat (Fin 0)" atof_int]
  by (simp add: atof_int_zero)

lemma bmi_boundary:
  assumes "truthy x" and "py_float atof x = Inr (Fin v)" and "v = 0 \<or> v = 100"
  shows "validate_bmi atof x = Inr (True, [], Some (Fin v))"
  using assms by (auto simp: validate_bmi_def float_gt_def)

lemma glucose_boundary:
  assumes "truthy x" and "py_float atof x = Inr (Fin v)" and "v = 0 \<or> v = 500"
  shows "validate_avg_glucose_level atof x = Inr (True, [], Some (Fin v))"
  using assms by (auto simp: validate_avg_glucose_level_def float_gt_def)

text \<open>\<^verbatim>\<open>float\<close> of an int, at zero and where the rounding and the overflow start.\<close>

lemma bit_length_zero: "bit_length 0 = 0"
  by (simp add: bit_length.simps)

lemma int_to_float_zero: "int_to_float 0 = Some (Fin 0)"
  by (simp add: int_to_float_def round_to_53_def bit_length_zero)

lemma int_to_float_rounds:
  "int_to_float (2 ^ 53) = Some (Fin (2 ^ 53))"
  "int_to_float (2 ^ 53 + 1) = Some (Fin (2 ^ 53))"
  "int_to_float (2 ^ 53 + 3) = Some (Fin (2 ^ 53 + 4))"
  "int_to_float (- (2 ^ 53 + 3)) = Some (Fin (- (2 ^ 53 + 4)))"
  by code_simp+

lemma int_to_float_overflows:
  "int_to_float (2 ^ 1024 - 2 ^ 970 - 1) = Some (Fin (2 ^ 1024 - 2 ^ 971))"
  "int_to_float (2 ^ 1024 - 2 ^ 970) = None"
  by code_simp+

text \<open>A value above a positive bound comes from a truthy input, since \<^verbatim>\<open>float("")\<close> raises.\<close>

lemma above_is_truthy:
  assumes "atof [] = None" and "py_float atof x = Inr w" and "float_gt w (Fin b)" and "0 \<le> b"
  shows "truthy x"
proof (cases x)
  case (PyFloat f)
  with assms show ?thesis by (cases f) (auto simp: float_gt_def)
qed (use assms in \<open>auto simp: float_gt_def int_to_float_zero split: if_splits\<close>)

lemma not_lt_of_gt:
  assumes "float_gt w (Fin b)" and "0 \<le> b"
  shows "\<not> float_lt w (Fin 0)"
  using assms by (cases w) (auto simp: float_gt_def)

lemma bmi_above:
  assumes "atof [] = None" and "py_float atof x = Inr w" and "float_gt w (Fin 100)"
  shows "validate_bmi atof x = Inr (False, ''BMI must be a reasonable value (less than 100)'', None)"
proof -
  have "truthy x" using above_is_truthy [OF assms] by simp
  moreover have "\<not> float_lt w (Fin 0)" using not_lt_of_gt [OF assms(3)] by simp
  ultimately show ?thesis using assms by (simp add: validate_bmi_def)
qed

lemma glucose_above:
  assumes "atof [] = None" and "py_float atof x = Inr w" and "float_gt w (Fin 500)"
  shows "validate_avg_glucose_level atof x =
     Inr (False, ''Glucose level must be a reasonable value (less than 500)'', None)"
proof -
  have "truthy x" using above_is_truthy [OF assms] by simp
  moreover have "\<not> float_lt w (Fin 0)" using not_lt_of_gt [OF assms(3)] by simp
  ultimately show ?thesis using assms by (simp add: validate_avg_glucose_level_def)
qed

lemma not_a_number:
  assumes "s \<noteq> []" and "atof s = None"
  shows "validate_bmi atof (PyStr s) = Inr (False, ''BMI must be a valid number'', None)"
    and "validate_avg_glucose_level atof (PyStr s) =
           Inr (False, ''Glucose level must be a valid number'', None)"
  using assms by (simp_all add: validate_bmi_def validate_avg_glucose_level_def)

lemma number_messages:
  "contains ''number'' ''BMI must be a valid number''"
  "contains ''number'' ''Glucose level must be a valid number''"
  by code_simp+

text \<open>
  The boundary value 0 is not valid for every input: the number 0.0, which the docstrings
  admit as an input and whose numeric value is 0, is answered by the "required" test.
\<close>

theorem zero_number_is_required_counterexample:
  "py_float atof_int (PyFloat (Fin 0)) = Inr (Fin 0)
   \<and> validate_bmi atof_int (PyFloat (Fin 0)) = Inr (False, ''BMI is required'', None)
   \<and> validate_avg_glucose_level atof_int (PyFloat (Fin 0)) =
       Inr (False, ''Average glucose level is required'', None)"
  by (simp add: validate_bmi_def validate_avg_glucose_level_def)

text \<open>
  C5 (amended). For the BMI and glucose validators, with \<^verbatim>\<open>float("")\<close> raising as it does:
  every truthy input (a non-empty string, a non-zero number) whose numeric value is 0 or the
  maximum (100 for BMI, 500 for glucose) is valid, with the parsed float returned; every
  input that \<^verbatim>\<open>float\<close> converts to a value above the maximum, the positive infinity
  included, is invalid with no value; every non-empty string that \<^verbatim>\<open>float\<close> does not
  read is invalid with a message that contains "number".
\<close>

theorem bmi_glucose_boundaries:
  assumes "atof [] = None"
  shows
  "(truthy x \<and> py_float atof x = Inr (Fin v) \<and> (v = 0 \<or> v = 100) \<longrightarrow>
      validate_bmi atof x = Inr (True, [], Some (Fin v)))
   \<and> (truthy x \<and> py_float atof x = Inr (Fin v) \<and> (v = 0 \<or> v = 500) \<longrightarrow>
      validate_avg_glucose_level atof x = Inr (True, [], Some (Fin v)))
   \<and> (py_float atof x = Inr w \<and> float_gt w (Fin 100) \<longrightarrow>
      validate_bmi atof x =
        Inr (False, ''BMI must be a reasonable value (less than 100)'', None))
   \<and> (py_float atof x = Inr w \<and> float_gt w (Fin 500) \<longrightarrow>
      validate_avg_glucose_level atof x =
        Inr (False, ''Glucose level must be a reasonable value (less than 500)'', None))
   \<and> (s \<noteq> [] \<and> atof s = None \<longrightarrow>
      validate_bmi atof (PyStr s) = Inr (False, ''BMI must be a valid number'', None)
      \<and> validate_avg_glucose_level atof (PyStr s) =
          Inr (False, ''Glucose level must be a valid number'', None))
   \<and> contains ''number'' ''BMI must be a valid number''
   \<and> contains ''number'' ''Glucose level must be a valid number''"
  using bmi_boundary [where x = x and atof = atof and v = v]
    glucose_boundary [where x = x and atof = atof and v = v]
    bmi_above [where atof = atof and x = x and w = w, OF assms]
    glucose_above [where atof = atof and x = x and w = w, OF assms]
    not_a_number [where s = s and atof = atof] number_messages
  by blast

lemma atof_int_examples:
  "atof_int [] = None"
  "atof_int ''abc'' = None"
  "py_float atof_int (PyStr ''0'') = Inr (Fin 0)"
  "py_float atof_int (PyStr ''100'') = Inr (Fin 100)"
  "py_float atof_int (PyStr ''500'') = Inr (Fin 500)"
  "py_float atof_int (PyStr ''101'') = Inr (Fin 101)"
  "py_float atof_int (PyStr ''501'') = Inr (Fin 501)"
  "py_float atof_int (PyFloat PosInf) = Inr PosInf"
  by code_simp+

theorem bmi_glucose_boundaries_witness:
  "validate_bmi atof_int (PyStr ''0'') = Inr (True, [], Some (Fin 0))
   \<and> validate_bmi atof_int (PyStr ''100'') = Inr (True, [], Some (Fin 100))
   \<and> validate_avg_glucose_level atof_int (PyStr ''500'') = Inr (True, [], Some (Fin 500))
   \<and> validate_bmi atof_int (PyStr ''101'') =
       Inr (False, ''BMI must be a reasonable value (less than 100)'', None)
   \<and> validate_avg_glucose_level atof_int (PyStr ''501'') =
       Inr (False, ''Glucose level must be a reasonable value (less than 500)'', None)
   \<and> validate_bmi atof_int (PyFloat PosInf) =
       Inr (False, ''BMI must be a reasonable value (less than 100)'', None)
   \<and> validate_bmi atof_int (PyStr ''abc'') = Inr (False, ''BMI must be a valid number'', None)"
  using bmi_glucose_boundaries [of atof_int "PyStr ''0''" 0]
    bmi_glucose_boundaries [of atof_int "PyStr ''100''" 100]
    bmi_glucose_boundaries [of atof_int "PyStr ''500''" 500]
    bmi_glucose_boundaries [of atof_int "PyStr ''101''" _ "Fin 101"]
    bmi_glucose_boundaries [of atof_int "PyStr ''501''" _ "Fin 501"]
    bmi_glucose_boundaries [of atof_int "PyFloat PosInf" _ PosInf]
    bmi_glucose_boundaries [of atof_int _ _ _ "''abc''"]
  by (simp add: atof_int_examples float_gt_def del: py_float.simps)

section \<open>Properties of the predictor\<close>

subsection \<open>Loading the artifact\<close>

lemma starts_with_append: "starts_with xs (xs @ ys)"
  by (induction xs) auto

lemma contains_starts: "starts_with sub s \<Longrightarrow> contains sub s"
  by (cases s; cases sub) auto

lemma contains_append_left: "contains sub s \<Longrightarrow> contains sub (a @ s)"
  by (induction a) auto

lemma contains_middle: "contains sub (a @ sub @ b)"
  by (intro contains_append_left contains_starts starts_with_append)

lemma load_model_missing:
  assumes "model self = None" and "fs (model_path self) = None"
  shows "load_model fs self =
     (Some (Exn FileNotFoundError
        (''Model file not found at '' @ model_path self @ ''. ''
         @ ''Please export stroke_model.pkl from the training notebook into modeltraining/.'')
        None), self)"
  using assms by (simp add: load_model_def not_found_error_def)

lemma load_model_unreadable:
  assumes "model self = None" and "fs (model_path self) = Some (Inl exc)"
  shows "load_model fs self =
     (Some (Exn FileNotFoundError (''Error loading model: '' @ message exc) (Some exc)),
      self\<lparr>reads := reads self + 1\<rparr>)"
  using assms by (simp add: load_model_def load_error_def)

lemma load_model_loads:
  assumes "model self = None" and "fs (model_path self) = Some (Inr m)"
  shows "load_model fs self = (None, self\<lparr>model := Some m, reads := reads self + 1\<rparr>)"
  using assms by (simp add: load_model_def)

lemma load_model_cached:
  assumes "model self = Some m"
  shows "load_model fs self = (None, self)"
  using assms by (simp add: load_model_def)

text \<open>
  The two failures of \<^verbatim>\<open>load_model\<close> are not of distinct kinds: a missing file and an
  unreadable file both raise FileNotFoundError.
\<close>

theorem load_errors_same_class_counterexample:
  "map_option cls (fst (load_model (one_file ''elsewhere.pkl'' (Inl unreadable))
       (StrokePredictor MODEL_PATH PREDICTION_THRESHOLD))) = Some FileNotFoundError
   \<and> map_option cls (fst (load_model (one_file MODEL_PATH (Inl unreadable))
       (StrokePredictor MODEL_PATH PREDICTION_THRESHOLD))) = Some FileNotFoundError"
  by (simp add: load_model_def one_file_def StrokePredictor_def MODEL_PATH_def
      not_found_error_def load_error_def)

text \<open>
  C1 (amended). For every configured model path, \<^verbatim>\<open>load_model\<close> on a predictor with no
  model loaded fails in both cases with the same class, FileNotFoundError, and the two are
  told apart by message and cause only: when no file exists at the path, the message names
  the attempted path and there is no cause; when the file exists and cannot be
  deserialized, the message is "Error loading model: " followed by the text of the
  underlying exception, which is kept as the cause. In neither case is a model stored.
\<close>

theorem load_model_failures:
  assumes "model self = None"
  shows
  "(fs (model_path self) = None \<longrightarrow>
      load_model fs self =
        (Some (Exn FileNotFoundError
           (''Model file not found at '' @ model_path self @ ''. ''
            @ ''Please export stroke_model.pkl from the training notebook into modeltraining/.'')
           None), self)
      \<and> contains (model_path self)
          (''Model file not found at '' @ model_path self @ ''. ''
            @ ''Please export stroke_model.pkl from the training notebook into modeltraining/.''))
   \<and> (fs (model_path self) = Some (Inl exc) \<longrightarrow>
      load_model fs self =
        (Some (Exn FileNotFoundError (''Error loading model: '' @ message exc) (Some exc)),
         self\<lparr>reads := reads self + 1\<rparr>)
      \<and> model (snd (load_model fs self)) = None)"
  using load_model_missing [OF assms, of fs] load_model_unreadable [OF assms, of fs exc]
    contains_middle [of "model_path self" "''Model file not found at ''"] assms
  by simp

theorem load_model_failures_witness:
  "load_model (one_file ''elsewhere.pkl'' (Inl unreadable))
      (StrokePredictor MODEL_PATH PREDICTION_THRESHOLD) =
     (Some (Exn FileNotFoundError
        (''Model file not found at modeltraining/stroke_model.pkl. ''
         @ ''Please export stroke_model.pkl from the training notebook into modeltraining/.'')
        None),
      StrokePredictor MODEL_PATH PREDICTION_THRESHOLD)
   \<and> load_model (one_file MODEL_PATH (Inl unreadable))
      (StrokePredictor MODEL_PATH PREDICTION_THRESHOLD) =
     (Some (Exn FileNotFoundError ''Error loading model: invalid load key'' (Some unreadable)),
      (StrokePredictor MODEL_PATH PREDICTION_THRESHOLD)\<lparr>reads := 1\<rparr>)"
  using load_model_failures [of "StrokePredictor MODEL_PATH PREDICTION_THRESHOLD"
      "one_file ''elsewhere.pkl'' (Inl unreadable)"]
    load_model_failures [of "StrokePredictor MODEL_PATH PREDICTION_THRESHOLD"
      "one_file MODEL_PATH (Inl unreadable)" unreadable]
  by (simp add: one_file_def StrokePredictor_def MODEL_PATH_def unreadable_def)

subsection \<open>The decision threshold\<close>

text \<open>
  C2. When the model is loaded or loads, and the pipeline gives the probability \<open>p\<close> for
  the prepared row, \<^verbatim>\<open>predict\<close> returns \<open>p\<close> itself and the prediction 1 if \<open>p\<close> is at
  least the predictor's threshold, 0 otherwise; the comparison is exact. With the default
  threshold 0.75, the probability 0.75 gives 1 and 0.7499999 gives 0. The statement holds
  for every finite \<open>p\<close>, so for every \<open>p\<close> in \<open>[0, 1]\<close>.
\<close>

theorem predict_applies_threshold:
  assumes "model self = Some m \<or> (model self = None \<and> fs (model_path self) = Some (Inr m))"
    and "prepare_features atof d = Inr features"
    and "m features = Inr (Fin p)"
    and "threshold self = Fin t"
  shows "fst (predict fs atof self d) = Inr (if p \<ge> t then 1 else 0, Fin p)
    \<and> threshold (StrokePredictor path PREDICTION_THRESHOLD) = Fin 0.75"
  using assms
  by (auto simp: predict_def load_model_def infer_def StrokePredictor_def PREDICTION_THRESHOLD_def)

lemma row_without_bmi:
  "prepare_features atof_int profile_without_bmi =
     Inr [(''gender'', PyStr ''Female''), (''age'', PyFloat (Fin 67)), (''hypertension'', PyInt 1),
          (''ever_married'', PyStr ''Yes''), (''work_type'', PyStr ''Private''),
          (''Residence_type'', PyStr ''Urban''), (''avg_glucose_level'', PyFloat (Fin 228.5)),
          (''bmi'', PyFloat (Fin 0)), (''smoking_status'', PyStr ''Smokes'')]"
  by code_simp

theorem predict_applies_threshold_witness:
  "fst (predict (one_file MODEL_PATH (Inr (stub_pipeline (Fin 0.75)))) atof_int
        (StrokePredictor MODEL_PATH PREDICTION_THRESHOLD) profile_without_bmi)
     = Inr (1, Fin 0.75)
   \<and> fst (predict (one_file MODEL_PATH (Inr (stub_pipeline (Fin 0.7499999)))) atof_int
        (StrokePredictor MODEL_PATH PREDICTION_THRESHOLD) profile_without_bmi)
     = Inr (0, Fin 0.7499999)"
  using predict_applies_threshold [where self = "StrokePredictor MODEL_PATH PREDICTION_THRESHOLD"
      and fs = "one_file MODEL_PATH (Inr (stub_pipeline (Fin 0.75)))"
      and m = "stub_pipeline (Fin 0.75)" and atof = atof_int and d = profile_without_bmi
      and p = "0.75" and t = "0.75", OF _ row_without_bmi]
    predict_applies_threshold [where self = "StrokePredictor MODEL_PATH PREDICTION_THRESHOLD"
      and fs = "one_file MODEL_PATH (Inr (stub_pipeline (Fin 0.7499999)))"
      and m = "stub_pipeline (Fin 0.7499999)" and atof = atof_int and d = profile_without_bmi
      and p = "0.7499999" and t = "0.75", OF _ row_without_bmi]
  by (simp add: one_file_def StrokePredictor_def PREDICTION_THRESHOLD_def stub_pipeline_def)

subsection \<open>Feature preparation\<close>

lemma prepare_features_row:
  assumes "prepare_features atof d = Inr features"
  shows "\<exists>age hyp glu bmi. features =
      [(''gender'', dict_get d ''gender''), (''age'', PyFloat age), (''hypertension'', PyInt hyp),
       (''ever_married'', dict_get d ''ever_married''), (''work_type'', dict_get d ''work_type''),
       (''Residence_type'', dict_get d ''residence_type''),
       (''avg_glucose_level'', PyFloat glu), (''bmi'', PyFloat bmi),
       (''smoking_status'', dict_get d ''smoking_status'')]
     \<and> as_float atof (dict_get d ''age'') (Fin 0) = Inr age
     \<and> as_int (dict_get d ''hypertension'') 0 = Inr hyp
     \<and> as_float atof (dict_get d ''avg_glucose_level'') (Fin 0) = Inr glu
     \<and> as_float atof (dict_get d ''bmi'') (Fin 0) = Inr bmi"
  using assms by (auto simp: prepare_features_def split: sum.splits)

lemma infer_calls_pipeline:
  assumes "prepare_features atof d = Inr features" and "model self = Some m"
  shows "infer atof self d =
     (case m features of
        Inl exc \<Rightarrow> if cls exc = AttributeError then Inl (no_predict_proba exc) else Inl exc
      | Inr probability \<Rightarrow>
          Inr (if float_ge probability (threshold self) then 1 else 0, probability))"
  using assms by (simp add: infer_def)

text \<open>
  C8. Whenever \<^verbatim>\<open>prepare_features\<close> yields a row for a patient record, the row holds the
  value of the record's lowercase field \<^verbatim>\<open>residence_type\<close> under the capitalized key
  \<^verbatim>\<open>Residence_type\<close>, as its sixth column, and has no column named \<^verbatim>\<open>residence_type\<close>;
  this row, unchanged, is the argument the pipeline is called with.
\<close>

theorem residence_key_is_capitalized:
  assumes "prepare_features atof d = Inr features"
  shows "map_of features ''Residence_type'' = Some (dict_get d ''residence_type'')
    \<and> map_of features ''residence_type'' = None
    \<and> features ! 5 = (''Residence_type'', dict_get d ''residence_type'')
    \<and> map fst features =
        [''gender'', ''age'', ''hypertension'', ''ever_married'', ''work_type'',
         ''Residence_type'', ''avg_glucose_level'', ''bmi'', ''smoking_status'']
    \<and> (model self = Some m \<longrightarrow>
        infer atof self d =
          (case m features of
             Inl exc \<Rightarrow> if cls exc = AttributeError then Inl (no_predict_proba exc) else Inl exc
           | Inr probability \<Rightarrow>
               Inr (if float_ge probability (threshold self) then 1 else 0, probability)))"
proof -
  from prepare_features_row [OF assms] obtain age hyp glu bmi where row: "features =
      [(''gender'', dict_get d ''gender''), (''age'', PyFloat age), (''hypertension'', PyInt hyp),
       (''ever_married'', dict_get d ''ever_married''), (''work_type'', dict_get d ''work_type''),
       (''Residence_type'', dict_get d ''residence_type''),
       (''avg_glucose_level'', PyFloat glu), (''bmi'', PyFloat bmi),
       (''smoking_status'', dict_get d ''smoking_status'')]"
    by blast
  have "features ! 5 = (''Residence_type'', dict_get d ''residence_type'')"
    unfolding row by (simp add: eval_nat_numeral)
  then show ?thesis
    using infer_calls_pipeline [OF assms] by (simp add: row)
qed

theorem residence_key_is_capitalized_witness:
  "map_of (projr (prepare_features atof_int profile_without_bmi)) ''Residence_type''
     = Some (PyStr ''Urban'')
   \<and> map_of (projr (prepare_features atof_int profile_without_bmi)) ''residence_type'' = None
   \<and> dict_get profile_without_bmi ''residence_type'' = PyStr ''Urban''"
proof -
  have "dict_get profile_without_bmi ''residence_type'' = PyStr ''Urban''"
    by (simp add: dict_get_def profile_without_bmi_def)
  then show ?thesis
    using residence_key_is_capitalized [OF row_without_bmi] by (simp add: row_without_bmi)
qed

lemma as_float_total:
  assumes "py_float atof v \<noteq> Inl OverflowError"
  shows "as_float atof v dflt = Inr (case py_float atof v of Inr x \<Rightarrow> x | Inl e \<Rightarrow> dflt)"
proof (cases "py_float atof v")
  case (Inl e)
  with assms have "e = TypeError \<or> e = ValueError"
    by (cases v) (auto split: if_splits option.splits)
  with Inl show ?thesis by (auto simp: as_float_def)
next
  case (Inr x)
  then show ?thesis by (simp add: as_float_def)
qed

lemma as_int_total:
  assumes "py_int v \<noteq> Inl OverflowError"
  shows "as_int v dflt = Inr (case py_int v of Inr n \<Rightarrow> n | Inl e \<Rightarrow> dflt)"
proof (cases "py_int v")
  case (Inl e)
  with assms have "e = TypeError \<or> e = ValueError"
    by (cases v rule: py_int.cases) (auto split: if_splits option.splits)
  with Inl show ?thesis by (auto simp: as_int_def)
next
  case (Inr n)
  then show ?thesis by (simp add: as_int_def)
qed

lemma absent_is_type_error:
  assumes "d k = None"
  shows "py_float atof (dict_get d k) = Inl TypeError" and "py_int (dict_get d k) = Inl TypeError"
  using assms by (simp_all add: dict_get_def)

lemma predict_with_model:
  assumes "model self = Some m \<or> (model self = None \<and> fs (model_path self) = Some (Inr m))"
    and "prepare_features atof d = Inr features" and "m features = Inr p"
  shows "fst (predict fs atof self d) =
     Inr (if float_ge p (threshold self) then 1 else 0, p)"
  using assms by (auto simp: predict_def load_model_def infer_def)

text \<open>
  The conversions do not turn every unparsable value into the default: \<^verbatim>\<open>int\<close> of a float
  infinity raises OverflowError, which \<^verbatim>\<open>_as_int\<close> does not catch, so a record whose
  \<^verbatim>\<open>hypertension\<close> field holds an infinity makes \<^verbatim>\<open>prepare_features\<close>, and with it
  \<^verbatim>\<open>predict\<close>, raise.
\<close>

theorem infinite_hypertension_raises_counterexample:
  "prepare_features atof_int (profile_without_bmi(''hypertension'' \<mapsto> PyFloat PosInf))
     = Inl OverflowError
   \<and> fst (predict (one_file MODEL_PATH (Inr (stub_pipeline (Fin 0.9)))) atof_int
        (StrokePredictor MODEL_PATH PREDICTION_THRESHOLD)
        (profile_without_bmi(''hypertension'' \<mapsto> PyFloat PosInf)))
     = Inl (Exn OverflowError [] None)"
  by code_simp

lemma prepare_features_total:
  assumes "py_float atof (dict_get d ''age'') \<noteq> Inl OverflowError"
    and "py_int (dict_get d ''hypertension'') \<noteq> Inl OverflowError"
    and "py_float atof (dict_get d ''avg_glucose_level'') \<noteq> Inl OverflowError"
    and "py_float atof (dict_get d ''bmi'') \<noteq> Inl OverflowError"
  shows "prepare_features atof d =
     Inr [(''gender'', dict_get d ''gender''),
          (''age'', PyFloat (case py_float atof (dict_get d ''age'') of
                               Inr x \<Rightarrow> x | Inl e \<Rightarrow> Fin 0)),
          (''hypertension'', PyInt (case py_int (dict_get d ''hypertension'') of
                               Inr n \<Rightarrow> n | Inl e \<Rightarrow> 0)),
          (''ever_married'', dict_get d ''ever_married''),
          (''work_type'', dict_get d ''work_type''),
          (''Residence_type'', dict_get d ''residence_type''),
          (''avg_glucose_level'', PyFloat (case py_float atof (dict_get d ''avg_glucose_level'') of
                               Inr x \<Rightarrow> x | Inl e \<Rightarrow> Fin 0)),
          (''bmi'', PyFloat (case py_float atof (dict_get d ''bmi'') of
                               Inr x \<Rightarrow> x | Inl e \<Rightarrow> Fin 0)),
          (''smoking_status'', dict_get d ''smoking_status'')]"
  unfolding prepare_features_def
  by (simp add: as_float_total [OF assms(1)] as_int_total [OF assms(2)]
      as_float_total [OF assms(3)] as_float_total [OF assms(4)])

text \<open>
  C3 (amended). For every patient record in which no numeric field makes its conversion
  overflow (\<^verbatim>\<open>hypertension\<close> is not a float infinity; \<^verbatim>\<open>age\<close>, \<^verbatim>\<open>avg_glucose_level\<close>
  and \<^verbatim>\<open>bmi\<close> are not ints beyond the range of a double), \<^verbatim>\<open>prepare_features\<close> returns a
  row: each numeric field holds its converted value, and the default (0.0 for age, glucose
  and BMI, 0 for hypertension) when the conversion fails, as it does for an absent field.
  Prediction on such a record, an incomplete one included, gives a verdict whenever the
  model is loaded or loads and the pipeline returns a probability for the row.
\<close>

theorem prepare_features_defaults:
  assumes "py_float atof (dict_get d ''age'') \<noteq> Inl OverflowError"
    and "py_int (dict_get d ''hypertension'') \<noteq> Inl OverflowError"
    and "py_float atof (dict_get d ''avg_glucose_level'') \<noteq> Inl OverflowError"
    and "py_float atof (dict_get d ''bmi'') \<noteq> Inl OverflowError"
  shows "\<exists>features. prepare_features atof d = Inr features
    \<and> map_of features ''age'' =
        Some (PyFloat (case py_float atof (dict_get d ''age'') of Inr x \<Rightarrow> x | Inl e \<Rightarrow> Fin 0))
    \<and> map_of features ''hypertension'' =
        Some (PyInt (case py_int (dict_get d ''hypertension'') of Inr n \<Rightarrow> n | Inl e \<Rightarrow> 0))
    \<and> map_of features ''avg_glucose_level'' =
        Some (PyFloat (case py_float atof (dict_get d ''avg_glucose_level'') of
                         Inr x \<Rightarrow> x | Inl e \<Rightarrow> Fin 0))
    \<and> map_of features ''bmi'' =
        Some (PyFloat (case py_float atof (dict_get d ''bmi'') of Inr x \<Rightarrow> x | Inl e \<Rightarrow> Fin 0))
    \<and> (\<forall>k. d k = None \<longrightarrow>
          py_float atof (dict_get d k) = Inl TypeError \<and> py_int (dict_get d k) = Inl TypeError)
    \<and> (\<forall>fs self m p.
          (model self = Some m \<or> (model self = None \<and> fs (model_path self) = Some (Inr m)))
          \<and> m features = Inr p \<longrightarrow>
          fst (predict fs atof self d) = Inr (if float_ge p (threshold self) then 1 else 0, p))"
proof -
  let ?row = "[(''gender'', dict_get d ''gender''),
          (''age'', PyFloat (case py_float atof (dict_get d ''age'') of
                               Inr x \<Rightarrow> x | Inl e \<Rightarrow> Fin 0)),
          (''hypertension'', PyInt (case py_int (dict_get d ''hypertension'') of
                               Inr n \<Rightarrow> n | Inl e \<Rightarrow> 0)),
          (''ever_married'', dict_get d ''ever_married''),
          (''work_type'', dict_get d ''work_type''),
          (''Residence_type'', dict_get d ''residence_type''),
          (''avg_glucose_level'', PyFloat (case py_float atof (dict_get d ''avg_glucose_level'') of
                               Inr x \<Rightarrow> x | Inl e \<Rightarrow> Fin 0)),
          (''bmi'', PyFloat (case py_float atof (dict_get d ''bmi'') of
                               Inr x \<Rightarrow> x | Inl e \<Rightarrow> Fin 0)),
          (''smoking_status'', dict_get d ''smoking_status'')]"
  have row: "prepare_features atof d = Inr ?row"
    by (rule prepare_features_total [OF assms])
  have absent: "\<forall>k. d k = None \<longrightarrow>
      py_float atof (dict_get d k) = Inl TypeError \<and> py_int (dict_get d k) = Inl TypeError"
    by (simp add: absent_is_type_error)
  have verdict: "\<forall>fs self m p.
      (model self = Some m \<or> (model self = None \<and> fs (model_path self) = Some (Inr m)))
      \<and> m ?row = Inr p \<longrightarrow>
      fst (predict fs atof self d) = Inr (if float_ge p (threshold self) then 1 else 0, p)"
    using predict_with_model [OF _ row] by blast
  show ?thesis
    apply (rule exI [of _ ?row])
    apply (intro conjI)
          apply (rule row)
         apply simp
        apply simp
       apply simp
      apply simp
     apply (rule absent)
    apply (rule verdict)
    done
qed

lemma profile_without_bmi_fields:
  "profile_without_bmi ''bmi'' = None"
  "py_float atof_int (dict_get profile_without_bmi ''age'') = Inr (Fin 67)"
  "py_int (dict_get profile_without_bmi ''hypertension'') = Inr 1"
  "py_float atof_int (dict_get profile_without_bmi ''avg_glucose_level'') = Inr (Fin 228.5)"
  "py_float atof_int (dict_get profile_without_bmi ''bmi'') = Inl TypeError"
  by code_simp+

theorem prepare_features_defaults_witness:
  "profile_without_bmi ''bmi'' = None
   \<and> map_of (projr (prepare_features atof_int profile_without_bmi)) ''bmi'' = Some (PyFloat (Fin 0))
   \<and> fst (predict (one_file MODEL_PATH (Inr (stub_pipeline (Fin 0.9)))) atof_int
        (StrokePredictor MODEL_PATH PREDICTION_THRESHOLD) profile_without_bmi)
     = Inr (1, Fin 0.9)"
proof -
  let ?fs = "one_file MODEL_PATH (Inr (stub_pipeline (Fin 0.9)))"
  let ?self = "StrokePredictor MODEL_PATH PREDICTION_THRESHOLD"
  from prepare_features_defaults [of atof_int profile_without_bmi]
  obtain features where f: "prepare_features atof_int profile_without_bmi = Inr features"
    and bmi: "map_of features ''bmi'' = Some (PyFloat (Fin 0))"
    and verdict: "\<forall>fs self m p.
          (model self = Some m \<or> (model self = None \<and> fs (model_path self) = Some (Inr m)))
          \<and> m features = Inr p \<longrightarrow>
          fst (predict fs atof_int self profile_without_bmi)
            = Inr (if float_ge p (threshold self) then 1 else 0, p)"
    by (auto simp: profile_without_bmi_fields simp del: py_float.simps py_int.simps)
  have "model ?self = None \<and> ?fs (model_path ?self) = Some (Inr (stub_pipeline (Fin 0.9)))"
    by (simp add: StrokePredictor_def one_file_def)
  moreover have "stub_pipeline (Fin 0.9) features = Inr (Fin 0.9)"
    by (simp add: stub_pipeline_def)
  ultimately have "fst (predict ?fs atof_int ?self profile_without_bmi)
      = Inr (if float_ge (Fin 0.9) (threshold ?self) then 1 else 0, Fin 0.9)"
    using verdict by blast
  then show ?thesis
    using f bmi
    by (simp add: profile_without_bmi_fields StrokePredictor_def PREDICTION_THRESHOLD_def)
qed

section \<open>Concurrent first use\<close>










lemma infer_cong:
  "model a = model b \<Longrightarrow> threshold a = threshold b \<Longrightarrow> infer atof a d = infer atof b d"
  by (auto simp: infer_def split: sum.splits option.splits)

text \<open>
  A caller that runs alone takes four steps, and they amount to one call of
  \<^verbatim>\<open>predict\<close>: the points of the interleaving cut the method and change nothing in it.
\<close>

lemma lone_caller_is_predict:
  "run fs atof [0, 0, 0, 0] (start self [d]) =
     (snd (predict fs atof self d), [(d, Finished (fst (predict fs atof self d)))])"
proof (cases "model self")
  case (Some m)
  then show ?thesis
    by (simp add: run_def start_def step_def predict_def load_model_def)
next
  case None
  show ?thesis
  proof (cases "fs (model_path self)")
    case no_file: None
    with \<open>model self = None\<close> show ?thesis
      by (simp add: run_def start_def step_def predict_def load_model_def)
  next
    case (Some content)
    with \<open>model self = None\<close> show ?thesis
      by (cases content)
        (auto simp: run_def start_def step_def predict_def load_model_def intro: infer_cong)
  qed
qed



















end
